theory Spec2Isabelle
  imports Complex_Main
begin

section \<open>Conventions of the embedding\<close>

text \<open>
  The simulation core is written in Python over \<^verbatim>\<open>float\<close>. Every float is modelled as a
  \<^typ>\<open>real\<close>: rounding, NaN and infinities are outside the model. Python \<^verbatim>\<open>int\<close> is
  \<^typ>\<open>int\<close>, \<^verbatim>\<open>str\<close> is \<^typ>\<open>string\<close>, \<^verbatim>\<open>Optional[T]\<close> is \<^typ>\<open>'a option\<close>.
  A method that mutates \<^verbatim>\<open>self\<close> takes the object and returns it updated next to the
  method's return value. Private fields \<^verbatim>\<open>_f\<close> of class \<^verbatim>\<open>C\<close> are record fields
  prefixed with an abbreviation of \<^verbatim>\<open>C\<close>. A \<^verbatim>\<open>raise\<close> is a value of type
  \<open>py_error\<close>. Calls of \<^verbatim>\<open>time.time()\<close> and of \<^verbatim>\<open>random\<close> read an explicit
  argument.
\<close>

datatype py_error = ValueError string | ZeroDivisionError

section \<open>Vec3\<close>

text \<open>
  The three modules \<^verbatim>\<open>odm_system.py\<close>, \<^verbatim>\<open>combat_system.py\<close> and \<^verbatim>\<open>titan_ai.py\<close> each
  declare a dataclass \<^verbatim>\<open>Vec3\<close> with fields \<^verbatim>\<open>x, y, z\<close>; the methods below are the union
  of theirs.
\<close>

datatype Vec3 = Vec3 (vec_x: real) (vec_y: real) (vec_z: real)

definition vec_add :: "Vec3 \<Rightarrow> Vec3 \<Rightarrow> Vec3" where
  "vec_add a b = Vec3 (vec_x a + vec_x b) (vec_y a + vec_y b) (vec_z a + vec_z b)"

definition vec_sub :: "Vec3 \<Rightarrow> Vec3 \<Rightarrow> Vec3" where
  "vec_sub a b = Vec3 (vec_x a - vec_x b) (vec_y a - vec_y b) (vec_z a - vec_z b)"

definition vec_mul :: "Vec3 \<Rightarrow> real \<Rightarrow> Vec3" where
  "vec_mul a k = Vec3 (vec_x a * k) (vec_y a * k) (vec_z a * k)"

definition vec_truediv :: "Vec3 \<Rightarrow> real \<Rightarrow> Vec3" where
  "vec_truediv a k =
     (if k = 0 then Vec3 0 0 0 else Vec3 (vec_x a / k) (vec_y a / k) (vec_z a / k))"

definition magnitude :: "Vec3 \<Rightarrow> real" where
  "magnitude a = sqrt ((vec_x a)\<^sup>2 + (vec_y a)\<^sup>2 + (vec_z a)\<^sup>2)"

definition normalized :: "Vec3 \<Rightarrow> Vec3" where
  "normalized a = (let mag = magnitude a in if mag = 0 then Vec3 0 0 0 else vec_truediv a mag)"

definition dot :: "Vec3 \<Rightarrow> Vec3 \<Rightarrow> real" where
  "dot a b = vec_x a * vec_x b + vec_y a * vec_y b + vec_z a * vec_z b"

definition distance_to :: "Vec3 \<Rightarrow> Vec3 \<Rightarrow> real" where
  "distance_to a b =
     (let dx = vec_x a - vec_x b; dy = vec_y a - vec_y b; dz = vec_z a - vec_z b
      in sqrt (dx * dx + dy * dy + dz * dz))"

definition direction_to :: "Vec3 \<Rightarrow> Vec3 \<Rightarrow> Vec3" where
  "direction_to a b =
     (let dx = vec_x b - vec_x a; dy = vec_y b - vec_y a; dz = vec_z b - vec_z a;
          len = sqrt (dx * dx + dy * dy + dz * dz)
      in if len = 0 then Vec3 0 0 0 else Vec3 (dx / len) (dy / len) (dz / len))"

section \<open>ResourceSystem\<close>

record ResourceSystem =
  rs_max_gas :: real
  rs_max_blades :: int
  rs_max_blade_durability :: real
  rs_low_gas_threshold :: real
  rs_low_blade_threshold :: int
  rs_gas_level :: real
  rs_blade_count :: int
  rs_blade_durability :: real

definition consume_gas :: "ResourceSystem \<Rightarrow> real \<Rightarrow> bool \<times> ResourceSystem" where
  "consume_gas rs amount =
     (if amount < 0 then (False, rs)
      else if rs_gas_level rs \<ge> amount
        then (True, rs\<lparr>rs_gas_level := rs_gas_level rs - amount\<rparr>)
      else (False, rs))"

definition consume_blade_durability :: "ResourceSystem \<Rightarrow> real \<Rightarrow> bool \<times> ResourceSystem" where
  "consume_blade_durability rs amount =
     (if amount < 0 then (False, rs)
      else if rs_blade_durability rs \<ge> amount
        then (True, rs\<lparr>rs_blade_durability := rs_blade_durability rs - amount\<rparr>)
      else (False, rs))"

definition default_resources :: ResourceSystem where
  "default_resources =
     \<lparr>rs_max_gas = 100, rs_max_blades = 8, rs_max_blade_durability = 100,
      rs_low_gas_threshold = 2 / 10, rs_low_blade_threshold = 2,
      rs_gas_level = 100, rs_blade_count = 8, rs_blade_durability = 100\<rparr>"

section \<open>ODMSystem\<close>

record HookState =
  is_attached :: bool
  attach_point :: Vec3
  rope_length :: real
  tension :: real

text \<open>\<^verbatim>\<open>HookState.reset\<close>\<close>

definition HookState_reset :: "HookState \<Rightarrow> HookState" where
  "HookState_reset hook =
     hook\<lparr>is_attached := False, attach_point := Vec3 0 0 0, rope_length := 0, tension := 0\<rparr>"

record Surface =
  sf_position :: Vec3
  sf_normal :: Vec3
  is_valid :: bool

record ODMSystem =
  odm_hook_range :: real
  odm_max_gas :: real
  odm_boost_cost :: real
  odm_boost_power :: real
  odm_left_hook :: HookState
  odm_right_hook :: HookState
  odm_position :: Vec3
  odm_velocity :: Vec3
  odm_gas_level :: real
  odm_surfaces :: "Surface list"

definition GRAVITY :: Vec3 where
  "GRAVITY = Vec3 0 (- (98 / 10)) 0"

definition AIR_RESISTANCE :: real where
  "AIR_RESISTANCE = 2 / 100"

definition ROPE_STIFFNESS :: real where
  "ROPE_STIFFNESS = 50"

definition ROPE_DAMPING :: real where
  "ROPE_DAMPING = 5"

text \<open>
  \<^verbatim>\<open>_get_hook\<close> returns a reference to one of the two hook objects; the callers mutate
  it in place. The model reads the hook with \<open>get_hook\<close> and writes it back to the same
  side with \<open>set_hook\<close>.
\<close>

definition get_hook :: "ODMSystem \<Rightarrow> string \<Rightarrow> HookState" where
  "get_hook odm hook_side =
     (if hook_side = ''left'' then odm_left_hook odm else odm_right_hook odm)"

definition set_hook :: "ODMSystem \<Rightarrow> string \<Rightarrow> HookState \<Rightarrow> ODMSystem" where
  "set_hook odm hook_side hook =
     (if hook_side = ''left'' then odm\<lparr>odm_left_hook := hook\<rparr>
      else odm\<lparr>odm_right_hook := hook\<rparr>)"

text \<open>
  The loop of \<^verbatim>\<open>_find_attach_point\<close>. The accumulator is the pair
  \<^verbatim>\<open>(best_surface, best_distance)\<close>; \<open>None\<close> is the initial
  \<^verbatim>\<open>(None, float('inf'))\<close>, below which every distance lies.
\<close>

fun attach_scan ::
  "Vec3 \<Rightarrow> Vec3 \<Rightarrow> real \<Rightarrow> Surface list \<Rightarrow> (Surface \<times> real) option \<Rightarrow> (Surface \<times> real) option"
where
  "attach_scan origin direction hook_range [] best = best"
| "attach_scan origin direction hook_range (surface # rest) best =
     (if \<not> is_valid surface then attach_scan origin direction hook_range rest best
      else
        let to_surface = vec_sub (sf_position surface) origin;
            distance = magnitude to_surface
        in if distance > hook_range then attach_scan origin direction hook_range rest best
           else if distance > 0 \<and> dot direction (normalized to_surface) < 5 / 10
             then attach_scan origin direction hook_range rest best
           else if (case best of None \<Rightarrow> True | Some (_, best_distance) \<Rightarrow> distance < best_distance)
             then attach_scan origin direction hook_range rest (Some (surface, distance))
           else attach_scan origin direction hook_range rest best)"

definition find_attach_point :: "ODMSystem \<Rightarrow> Vec3 \<Rightarrow> Vec3 \<Rightarrow> Surface option" where
  "find_attach_point odm origin direction =
     map_option fst
       (attach_scan origin (normalized direction) (odm_hook_range odm) (odm_surfaces odm) None)"

definition release_hook :: "ODMSystem \<Rightarrow> string \<Rightarrow> ODMSystem" where
  "release_hook odm hook_side = set_hook odm hook_side (HookState_reset (get_hook odm hook_side))"

definition fire_hook :: "ODMSystem \<Rightarrow> Vec3 \<Rightarrow> string \<Rightarrow> bool \<times> ODMSystem" where
  "fire_hook odm direction hook_side =
     (let odm1 = (if is_attached (get_hook odm hook_side) then release_hook odm hook_side
                  else odm)
      in case find_attach_point odm1 (odm_position odm1) direction of
           None \<Rightarrow> (False, odm1)
         | Some surface \<Rightarrow>
             (True,
              set_hook odm1 hook_side
                ((get_hook odm1 hook_side)
                   \<lparr>is_attached := True,
                    attach_point := sf_position surface,
                    rope_length := magnitude (vec_sub (sf_position surface) (odm_position odm1)),
                    tension := 0\<rparr>)))"

text \<open>
  \<^verbatim>\<open>_apply_hook_constraint(hook, dt)\<close> is only called with one of the system's own two
  hooks; the model names it by its side.
\<close>

definition apply_hook_constraint :: "ODMSystem \<Rightarrow> string \<Rightarrow> real \<Rightarrow> ODMSystem" where
  "apply_hook_constraint odm hook_side dt =
     (let hook = get_hook odm hook_side
      in if \<not> is_attached hook then odm
         else
           let to_attach = vec_sub (attach_point hook) (odm_position odm);
               current_distance = magnitude to_attach
           in if current_distance < 1 / 1000 then odm
              else
                let rope_direction = normalized to_attach
                in if current_distance > rope_length hook then
                     let stretch = current_distance - rope_length hook;
                         spring_force = vec_mul rope_direction (stretch * ROPE_STIFFNESS);
                         velocity_along_rope =
                           vec_mul rope_direction (dot (odm_velocity odm) rope_direction);
                         damping_force = vec_mul velocity_along_rope (- ROPE_DAMPING);
                         total_force = vec_add spring_force damping_force;
                         odm1 = odm\<lparr>odm_velocity :=
                                  vec_add (odm_velocity odm) (vec_mul total_force dt)\<rparr>
                     in set_hook odm1 hook_side (hook\<lparr>tension := stretch * ROPE_STIFFNESS\<rparr>)
                   else set_hook odm hook_side (hook\<lparr>tension := 0\<rparr>))"

definition update_swing_physics :: "ODMSystem \<Rightarrow> real \<Rightarrow> ODMSystem" where
  "update_swing_physics odm dt =
     (if dt \<le> 0 then odm
      else
        let gravity_force = vec_mul GRAVITY dt;
            odm1 = odm\<lparr>odm_velocity := vec_add (odm_velocity odm) gravity_force\<rparr>;
            odm2 = apply_hook_constraint odm1 ''left'' dt;
            odm3 = apply_hook_constraint odm2 ''right'' dt;
            air_drag = vec_mul (odm_velocity odm3) (- AIR_RESISTANCE);
            odm4 = odm3\<lparr>odm_velocity := vec_add (odm_velocity odm3) air_drag\<rparr>
        in odm4\<lparr>odm_position :=
                  vec_add (odm_position odm4) (vec_mul (odm_velocity odm4) dt)\<rparr>)"

text \<open>\<^verbatim>\<open>ODMSystem.__init__\<close> with the values of \<^verbatim>\<open>GAME_CONFIG\<close>.\<close>

definition ODMSystem_init :: ODMSystem where
  "ODMSystem_init =
     \<lparr>odm_hook_range = 50, odm_max_gas = 100, odm_boost_cost = 5, odm_boost_power = 20,
      odm_left_hook = \<lparr>is_attached = False, attach_point = Vec3 0 0 0, rope_length = 0,
                        tension = 0\<rparr>,
      odm_right_hook = \<lparr>is_attached = False, attach_point = Vec3 0 0 0, rope_length = 0,
                         tension = 0\<rparr>,
      odm_position = Vec3 0 0 0, odm_velocity = Vec3 0 0 0, odm_gas_level = 100,
      odm_surfaces = []\<rparr>"

subsection \<open>Predicates and example states for the ODM properties\<close>

definition surface_distance :: "Vec3 \<Rightarrow> Surface \<Rightarrow> real" where
  "surface_distance origin s = magnitude (vec_sub (sf_position s) origin)"

text \<open>
  The test that one iteration of \<^verbatim>\<open>_find_attach_point\<close> applies to a surface before
  comparing distances; \<open>dirn\<close> is the aim direction after \<^verbatim>\<open>normalized()\<close>. A surface at
  distance zero skips the direction test (\<^verbatim>\<open>if distance > 0:\<close>).
\<close>

definition scan_accepts :: "Vec3 \<Rightarrow> Vec3 \<Rightarrow> real \<Rightarrow> Surface \<Rightarrow> bool" where
  "scan_accepts origin dirn hook_range s \<longleftrightarrow>
     is_valid s \<and> surface_distance origin s \<le> hook_range \<and>
     (surface_distance origin s \<le> 0 \<or>
      5 / 10 \<le> dot dirn (normalized (vec_sub (sf_position s) origin)))"

definition attach_candidate :: "Vec3 \<Rightarrow> Vec3 \<Rightarrow> real \<Rightarrow> Surface \<Rightarrow> bool" where
  "attach_candidate origin direction hook_range s \<longleftrightarrow>
     scan_accepts origin (normalized direction) hook_range s"

text \<open>
  The candidate set in the words of the specification: valid, within range, and the
  normalized direction to the surface has dot-product at least 0.5 with the normalized aim.
\<close>

definition spec_candidate :: "Vec3 \<Rightarrow> Vec3 \<Rightarrow> real \<Rightarrow> Surface \<Rightarrow> bool" where
  "spec_candidate origin direction hook_range s \<longleftrightarrow>
     is_valid s \<and> surface_distance origin s \<le> hook_range \<and>
     5 / 10 \<le> dot (normalized direction) (normalized (vec_sub (sf_position s) origin))"

text \<open>
  The system after the gravity step and the two hook constraints of
  \<^verbatim>\<open>update_swing_physics\<close>, before drag and integration.
\<close>

definition constrained :: "ODMSystem \<Rightarrow> real \<Rightarrow> ODMSystem" where
  "constrained odm dt =
     apply_hook_constraint
       (apply_hook_constraint
          (odm\<lparr>odm_velocity := vec_add (odm_velocity odm) (vec_mul GRAVITY dt)\<rparr>) ''left'' dt)
       ''right'' dt"

text \<open>The drag of the specification's sentence, with the coefficient scaled by \<open>dt\<close>.\<close>

definition spec_drag_scaled :: "Vec3 \<Rightarrow> real \<Rightarrow> Vec3" where
  "spec_drag_scaled v dt = vec_mul v (1 - AIR_RESISTANCE * dt)"

definition swing_example :: ODMSystem where
  "swing_example = ODMSystem_init\<lparr>odm_velocity := Vec3 100 0 0\<rparr>"

definition surface_at :: "Vec3 \<Rightarrow> bool \<Rightarrow> Surface" where
  "surface_at p v = \<lparr>sf_position = p, sf_normal = Vec3 0 1 0, is_valid = v\<rparr>"

definition hook_example :: ODMSystem where
  "hook_example =
     ODMSystem_init
       \<lparr>odm_right_hook := \<lparr>is_attached = True, attach_point = Vec3 0 1 0, rope_length = 1,
                           tension = 7\<rparr>,
        odm_velocity := Vec3 1 2 3,
        odm_surfaces := [surface_at (Vec3 0 0 1) False, surface_at (Vec3 0 0 (- 1)) True,
                         surface_at (Vec3 0 0 1) True, surface_at (Vec3 0 1 0) True]\<rparr>"

definition zero_distance_example :: ODMSystem where
  "zero_distance_example = ODMSystem_init\<lparr>odm_surfaces := [surface_at (Vec3 0 0 0) True]\<rparr>"

section \<open>CombatSystem\<close>

record AttackResult =
  ar_hit :: bool
  ar_damage :: real
  ar_is_critical :: bool
  ar_target_part :: string
  ar_killed :: bool

text \<open>\<^verbatim>\<open>AttackResult()\<close> with the dataclass defaults.\<close>

definition AttackResult_init :: AttackResult where
  "AttackResult_init =
     \<lparr>ar_hit = False, ar_damage = 0, ar_is_critical = False, ar_target_part = '''',
      ar_killed = False\<rparr>"

record TitanHitbox =
  hb_position :: Vec3
  hb_nape_center :: Vec3
  hb_nape_radius :: real
  hb_health :: real
  hb_max_health :: real
  hb_is_alive :: bool

definition TitanHitbox_init :: "Vec3 \<Rightarrow> Vec3 \<Rightarrow> real \<Rightarrow> real \<Rightarrow> TitanHitbox" where
  "TitanHitbox_init position nape_center nape_radius health =
     \<lparr>hb_position = position, hb_nape_center = nape_center, hb_nape_radius = nape_radius,
      hb_health = health, hb_max_health = health, hb_is_alive = True\<rparr>"

definition get_absolute_nape_position :: "TitanHitbox \<Rightarrow> Vec3" where
  "get_absolute_nape_position titan =
     Vec3 (vec_x (hb_position titan) + vec_x (hb_nape_center titan))
          (vec_y (hb_position titan) + vec_y (hb_nape_center titan))
          (vec_z (hb_position titan) + vec_z (hb_nape_center titan))"

definition is_point_in_nape :: "TitanHitbox \<Rightarrow> Vec3 \<Rightarrow> bool" where
  "is_point_in_nape titan point =
     (let nape_pos = get_absolute_nape_position titan;
          distance = distance_to point nape_pos
      in distance \<le> hb_nape_radius titan)"

text \<open>\<^verbatim>\<open>TitanHitbox.take_damage\<close>\<close>

definition TitanHitbox_take_damage ::
  "TitanHitbox \<Rightarrow> real \<Rightarrow> bool \<Rightarrow> bool \<times> TitanHitbox"
where
  "TitanHitbox_take_damage titan dmg is_nape_hit =
     (if \<not> hb_is_alive titan then (False, titan)
      else
        let titan1 = titan\<lparr>hb_health := hb_health titan - dmg\<rparr>
        in if is_nape_hit then (True, titan1\<lparr>hb_health := 0, hb_is_alive := False\<rparr>)
           else if hb_health titan1 \<le> 0
             then (True, titan1\<lparr>hb_health := 0, hb_is_alive := False\<rparr>)
           else (False, titan1))"

record CombatSystem =
  cs_base_attack_damage :: real
  cs_durability_cost :: real
  cs_combo_timeout :: real
  cs_max_blade_durability :: real
  cs_blade_durability :: real
  cs_combo_count :: int
  cs_last_kill_time :: real
  cs_total_score :: int
  cs_attack_enabled :: bool
  cs_current_style_multiplier :: real

definition BASE_KILL_SCORE :: real where
  "BASE_KILL_SCORE = 100"

definition STYLE_MULTIPLIER_SPEED_THRESHOLD :: real where
  "STYLE_MULTIPLIER_SPEED_THRESHOLD = 10"

definition STYLE_MULTIPLIER_BONUS :: real where
  "STYLE_MULTIPLIER_BONUS = 15 / 10"

text \<open>
  \<^verbatim>\<open>CombatSystem.__init__\<close>; the defaults of \<^verbatim>\<open>GAME_CONFIG\<close> are base damage 50,
  durability cost 10, combo timeout 3 and maximal durability 100.
\<close>

definition CombatSystem_init :: "real \<Rightarrow> real \<Rightarrow> real \<Rightarrow> real \<Rightarrow> CombatSystem" where
  "CombatSystem_init base_attack_damage durability_cost combo_timeout max_blade_durability =
     \<lparr>cs_base_attack_damage = base_attack_damage, cs_durability_cost = durability_cost,
      cs_combo_timeout = combo_timeout, cs_max_blade_durability = max_blade_durability,
      cs_blade_durability = max_blade_durability, cs_combo_count = 0,
      cs_last_kill_time = 0, cs_total_score = 0, cs_attack_enabled = True,
      cs_current_style_multiplier = 1\<rparr>"

definition attack_enabled :: "CombatSystem \<Rightarrow> bool" where
  "attack_enabled cs \<longleftrightarrow> cs_attack_enabled cs \<and> cs_blade_durability cs > 0"

definition check_nape_hit :: "TitanHitbox option \<Rightarrow> Vec3 option \<Rightarrow> bool" where
  "check_nape_hit titan hit_point =
     (case (titan, hit_point) of
        (Some t, Some p) \<Rightarrow> is_point_in_nape t p
      | _ \<Rightarrow> False)"

definition calculate_damage :: "CombatSystem \<Rightarrow> bool \<Rightarrow> real \<Rightarrow> real \<times> CombatSystem" where
  "calculate_damage cs is_nape speed =
     (let base_damage = cs_base_attack_damage cs;
          dmg = (if is_nape then base_damage * 10 else base_damage * (3 / 10))
      in if speed > STYLE_MULTIPLIER_SPEED_THRESHOLD
         then (dmg * STYLE_MULTIPLIER_BONUS,
               cs\<lparr>cs_current_style_multiplier := STYLE_MULTIPLIER_BONUS\<rparr>)
         else (dmg, cs\<lparr>cs_current_style_multiplier := 1\<rparr>))"

text \<open>
  \<^verbatim>\<open>_update_combo_on_kill\<close>; \<open>current_time\<close> is the value \<^verbatim>\<open>time.time()\<close> returns in
  the call.
\<close>

definition update_combo_on_kill :: "CombatSystem \<Rightarrow> real \<Rightarrow> CombatSystem" where
  "update_combo_on_kill cs current_time =
     (let cs1 = (if current_time - cs_last_kill_time cs \<le> cs_combo_timeout cs
                 then cs\<lparr>cs_combo_count := cs_combo_count cs + 1\<rparr>
                 else cs\<lparr>cs_combo_count := 1\<rparr>)
      in cs1\<lparr>cs_last_kill_time := current_time\<rparr>)"

text \<open>
  \<^verbatim>\<open>update_combo(dt)\<close>; the clock is read only when the combo count is positive, and
  \<open>dt\<close> is not used.
\<close>

definition update_combo :: "CombatSystem \<Rightarrow> real \<Rightarrow> real \<Rightarrow> CombatSystem" where
  "update_combo cs dt current_time =
     (if cs_combo_count cs > 0
      then if current_time - cs_last_kill_time cs > cs_combo_timeout cs
           then cs\<lparr>cs_combo_count := 0\<rparr>
           else cs
      else cs)"

definition reset_combo :: "CombatSystem \<Rightarrow> CombatSystem" where
  "reset_combo cs = cs\<lparr>cs_combo_count := 0, cs_last_kill_time := 0\<rparr>"



definition get_score_multiplier :: "CombatSystem \<Rightarrow> real" where
  "get_score_multiplier cs =
     (let combo_multiplier =
            (if cs_combo_count cs > 0
             then min (1 + real_of_int (cs_combo_count cs - 1) * (1 / 10)) 3
             else 1);
          style_multiplier = cs_current_style_multiplier cs
      in combo_multiplier * style_multiplier)"

text \<open>Python's \<^verbatim>\<open>int(x)\<close> on a float truncates toward zero.\<close>

definition py_int :: "real \<Rightarrow> int" where
  "py_int r = (if r \<ge> 0 then \<lfloor>r\<rfloor> else \<lceil>r\<rceil>)"

text \<open>
  \<^verbatim>\<open>_calculate_kill_score\<close>. The model truncates the exact product; the code truncates
  the product of doubles, which can lie just below an integer that the exact product
  reaches (at combo 14 the code scores 229, the exact product is 230). The first kill of
  a combo scores \<open>100 * 1.0\<close>, which is exact in both.
\<close>

definition calculate_kill_score :: "CombatSystem \<Rightarrow> int" where
  "calculate_kill_score cs =
     (let multiplier = get_score_multiplier cs in py_int (BASE_KILL_SCORE * multiplier))"

text \<open>
  \<^verbatim>\<open>perform_slash\<close> mutates the combat system and the target; the model returns the
  result, the combat system and the target after the call.
\<close>

definition perform_slash ::
  "CombatSystem \<Rightarrow> TitanHitbox option \<Rightarrow> Vec3 option \<Rightarrow> real \<Rightarrow> real \<Rightarrow>
     AttackResult \<times> CombatSystem \<times> TitanHitbox option"
where
  "perform_slash cs titan hit_point attack_speed current_time =
     (let result = AttackResult_init
      in if \<not> attack_enabled cs then (result, cs, titan)
         else
           case titan of
             None \<Rightarrow> (result, cs, titan)
           | Some t \<Rightarrow>
               if \<not> hb_is_alive t then (result, cs, titan)
               else
                 let cs1 = cs\<lparr>cs_blade_durability :=
                                cs_blade_durability cs - cs_durability_cost cs\<rparr>;
                     cs2 = (if cs_blade_durability cs1 < 0
                            then cs1\<lparr>cs_blade_durability := 0\<rparr> else cs1);
                     result1 = result\<lparr>ar_hit := True\<rparr>;
                     is_nape_hit = check_nape_hit titan hit_point;
                     result2 = result1\<lparr>ar_is_critical := is_nape_hit,
                                 ar_target_part := (if is_nape_hit then ''nape'' else ''body'')\<rparr>;
                     (dmg, cs3) = calculate_damage cs2 is_nape_hit attack_speed;
                     result3 = result2\<lparr>ar_damage := dmg\<rparr>;
                     (was_killed, t1) = TitanHitbox_take_damage t dmg is_nape_hit;
                     result4 = result3\<lparr>ar_killed := was_killed\<rparr>;
                     cs4 = (if was_killed
                            then let cs5 = update_combo_on_kill cs3 current_time;
                                     score = calculate_kill_score cs5
                                 in cs5\<lparr>cs_total_score := cs_total_score cs5 + score\<rparr>
                            else cs3)
                 in (result4, cs4, Some t1))"

subsection \<open>Example states for the combat properties\<close>

definition combat_example :: CombatSystem where
  "combat_example = CombatSystem_init 50 10 3 100"

definition titan_example :: TitanHitbox where
  "titan_example = TitanHitbox_init (Vec3 0 0 0) (Vec3 0 5 (- 1)) 1 100"


section \<open>Player: the capture event (QTE)\<close>

datatype PlayerState =
  PS_IDLE | PS_MOVING | PS_AIRBORNE | PS_SWINGING | PS_ATTACKING | PS_GRABBED | PS_DEAD

record QTEEvent =
  qte_required_key :: string
  qte_time_limit :: real
  qte_elapsed_time :: real
  qte_success :: bool
  qte_failed :: bool

text \<open>
  \<^verbatim>\<open>str.lower()\<close> on the ASCII range: the letters \<^verbatim>\<open>A\<close> to \<^verbatim>\<open>Z\<close> (codes 65 to 90) move
  to \<^verbatim>\<open>a\<close> to \<^verbatim>\<open>z\<close> (their code plus 32, which is the same code with bit 5 set), every
  other character stays. The keys of the game (\<^verbatim>\<open>QTE_KEYS = ['space', 'e', 'q']\<close>) are
  ASCII; lower-casing beyond ASCII is outside the model.
\<close>

definition ascii_lower :: "char \<Rightarrow> char" where
  "ascii_lower c =
     (let n = (of_char c :: nat)
      in if 65 \<le> n \<and> n \<le> 90
         then Char (digit0 c) (digit1 c) (digit2 c) (digit3 c) (digit4 c) True (digit6 c) (digit7 c)
         else c)"

definition py_lower :: "string \<Rightarrow> string" where
  "py_lower s = map ascii_lower s"

text \<open>\<^verbatim>\<open>QTEEvent.update\<close>\<close>

definition QTEEvent_update :: "QTEEvent \<Rightarrow> real \<Rightarrow> QTEEvent" where
  "QTEEvent_update qte dt =
     (let qte1 = qte\<lparr>qte_elapsed_time := qte_elapsed_time qte + dt\<rparr>
      in if qte_elapsed_time qte1 \<ge> qte_time_limit qte1 then qte1\<lparr>qte_failed := True\<rparr>
         else qte1)"

definition check_input :: "QTEEvent \<Rightarrow> string \<Rightarrow> bool \<times> QTEEvent" where
  "check_input qte key =
     (if py_lower key = py_lower (qte_required_key qte) then (True, qte\<lparr>qte_success := True\<rparr>)
      else (False, qte))"

definition qte_is_active :: "QTEEvent \<Rightarrow> bool" where
  "qte_is_active qte \<longleftrightarrow> \<not> qte_success qte \<and> \<not> qte_failed qte"

text \<open>
  The titan that holds the player is an untyped reference; the player only ever reads
  its \<^verbatim>\<open>attack_damage\<close> attribute, when it has one.
\<close>

datatype Grabber = Grabber (grabber_attack_damage: "real option")

text \<open>
  The fields of \<^verbatim>\<open>Player\<close> that its movement, damage and capture code reads or writes.
  The character sheet, the model path, the animation name and the collision sizes are
  left out: no method modelled here touches them. A registered
  \<^verbatim>\<open>_on_qte_result_callback\<close> is an observer; the model records that one is registered
  and the arguments of its calls, in order.
\<close>

record Player =
  pl_position :: Vec3
  pl_velocity :: Vec3
  pl_rotation :: real
  pl_current_state :: PlayerState
  pl_is_grounded :: bool
  pl_is_alive :: bool
  pl_health :: real
  pl_max_health :: real
  pl_odm_system :: ODMSystem
  pl_combat_system :: CombatSystem
  pl_resource_system :: ResourceSystem
  pl_current_qte :: "QTEEvent option"
  pl_grabbing_titan :: "Grabber option"
  pl_on_qte_result_callback :: bool
  pl_qte_result_calls :: "bool list"

text \<open>\<^verbatim>\<open>Player._escape_grab\<close>\<close>

definition escape_grab :: "Player \<Rightarrow> Player" where
  "escape_grab p =
     (let p1 = p\<lparr>pl_current_state := PS_AIRBORNE, pl_grabbing_titan := None\<rparr>;
          escape_velocity = Vec3 0 5 (- 3);
          p2 = p1\<lparr>pl_velocity := escape_velocity\<rparr>;
          p3 = (if pl_on_qte_result_callback p2
                then p2\<lparr>pl_qte_result_calls := pl_qte_result_calls p2 @ [True]\<rparr>
                else p2)
      in p3\<lparr>pl_current_qte := None\<rparr>)"

definition process_qte_input :: "Player \<Rightarrow> string \<Rightarrow> bool \<times> Player" where
  "process_qte_input p key =
     (case pl_current_qte p of
        None \<Rightarrow> (False, p)
      | Some qte \<Rightarrow>
          if \<not> qte_is_active qte then (False, p)
          else
            let (matched, qte1) = check_input qte key;
                p1 = p\<lparr>pl_current_qte := Some qte1\<rparr>
            in if matched then (True, escape_grab p1) else (False, p1))"

subsection \<open>Example state for the capture properties\<close>

text \<open>A fresh player (\<^verbatim>\<open>Player.__init__\<close> with the configuration defaults) held by a titan, as
  \<^verbatim>\<open>on_grabbed\<close> leaves it when the key drawn is \<^verbatim>\<open>'e'\<close>.\<close>

definition grabbed_example :: Player where
  "grabbed_example =
     \<lparr>pl_position = Vec3 0 0 0, pl_velocity = Vec3 0 0 0, pl_rotation = 0,
      pl_current_state = PS_GRABBED, pl_is_grounded = True, pl_is_alive = True,
      pl_health = 100, pl_max_health = 100, pl_odm_system = ODMSystem_init,
      pl_combat_system = CombatSystem_init 50 10 3 100,
      pl_resource_system = default_resources,
      pl_current_qte = Some \<lparr>qte_required_key = ''e'', qte_time_limit = 2,
                              qte_elapsed_time = 0, qte_success = False, qte_failed = False\<rparr>,
      pl_grabbing_titan = Some (Grabber (Some 20)),
      pl_on_qte_result_callback = False, pl_qte_result_calls = []\<rparr>"

section \<open>TitanAI: data and construction\<close>

datatype TitanType = NORMAL | ABNORMAL | SPECIAL

datatype TitanState = IDLE | WANDERING | PURSUING | ATTACKING | GRABBING | STUNNED | DYING

text \<open>
  The message of the \<^verbatim>\<open>ValueError\<close> that an enum lookup by value raises,
  \<^verbatim>\<open>'giant' is not a valid TitanType\<close>: the \<^verbatim>\<open>repr\<close> of the value, which for a string of
  printable characters without quotes or backslashes is the string between single quotes
  (character \<^verbatim>\<open>0x27\<close>).
\<close>

definition not_a_valid :: "string \<Rightarrow> string \<Rightarrow> string" where
  "not_a_valid v enum_name = [CHR 0x27] @ v @ [CHR 0x27] @ '' is not a valid '' @ enum_name"



definition TitanState_of :: "string \<Rightarrow> py_error + TitanState" where
  "TitanState_of v =
     (if v = ''idle'' then Inr IDLE
      else if v = ''wandering'' then Inr WANDERING
      else if v = ''pursuing'' then Inr PURSUING
      else if v = ''attacking'' then Inr ATTACKING
      else if v = ''grabbing'' then Inr GRABBING
      else if v = ''stunned'' then Inr STUNNED
      else if v = ''dying'' then Inr DYING
      else Inl (ValueError (not_a_valid v ''TitanState'')))"

record BehaviorPattern =
  bp_name :: string
  bp_description :: string
  bp_pursuit_style :: string
  bp_attack_frequency :: real
  bp_retreat_threshold :: real
  bp_direction_change_interval :: real
  bp_preferred_distance :: real

record TitanData =
  td_id :: string
  td_type :: TitanType
  td_name :: string
  td_name_en :: string
  td_height :: real
  td_health :: real
  td_speed :: real
  td_detection_range :: real
  td_attack_range :: real
  td_attack_damage :: real
  td_grab_chance :: real
  td_response_time :: real
  td_behavior :: string
  td_model :: string
  td_description :: string
  td_armor_reduction :: real
  td_weak_points :: "string list"
  td_steam_damage :: real
  td_steam_range :: real
  td_can_harden :: bool
  td_can_call_titans :: bool
  td_throw_damage :: real
  td_throw_range :: real

text \<open>
  The class-level caches \<^verbatim>\<open>_titan_data_cache\<close>, \<^verbatim>\<open>_behavior_patterns_cache\<close> and
  \<^verbatim>\<open>_data_loaded\<close>, shared by all instances.
\<close>

record TitanRegistry =
  titan_data_cache :: "string \<rightharpoonup> TitanData"
  behavior_patterns_cache :: "string \<rightharpoonup> BehaviorPattern"
  data_loaded :: bool

definition empty_registry :: TitanRegistry where
  "empty_registry =
     \<lparr>titan_data_cache = Map.empty, behavior_patterns_cache = Map.empty, data_loaded = False\<rparr>"

definition reset_cache :: "TitanRegistry \<Rightarrow> TitanRegistry" where
  "reset_cache reg = empty_registry"

text \<open>
  The display strings of the default data are Chinese; they are given as their UTF-8
  bytes (\<^verbatim>\<open>3m-class titan\<close>, \<^verbatim>\<open>default titan\<close>, \<^verbatim>\<open>standard behaviour pattern\<close> and
  \<^verbatim>\<open>default behaviour\<close>). No code reads them.
\<close>

definition name_3m :: string where
  "name_3m = [CHR 0x33, CHR 0xE7, CHR 0xB1, CHR 0xB3, CHR 0xE7, CHR 0xBA, CHR 0xA7, CHR 0xE5,
              CHR 0xB7, CHR 0xA8, CHR 0xE4, CHR 0xBA, CHR 0xBA]"

definition description_default_titan :: string where
  "description_default_titan =
     [CHR 0xE9, CHR 0xBB, CHR 0x98, CHR 0xE8, CHR 0xAE, CHR 0xA4, CHR 0xE5, CHR 0xB7, CHR 0xA8,
      CHR 0xE4, CHR 0xBA, CHR 0xBA]"



definition default_titan_data :: TitanData where
  "default_titan_data =
     \<lparr>td_id = ''normal_3m'', td_type = NORMAL, td_name = name_3m, td_name_en = ''3m Titan'',
      td_height = 3, td_health = 100, td_speed = 2, td_detection_range = 30,
      td_attack_range = 3, td_attack_damage = 20, td_grab_chance = 1 / 10,
      td_response_time = 1, td_behavior = ''standard'', td_model = '''',
      td_description = description_default_titan, td_armor_reduction = 0,
      td_weak_points = [], td_steam_damage = 0, td_steam_range = 0, td_can_harden = False,
      td_can_call_titans = False, td_throw_damage = 0, td_throw_range = 0\<rparr>"








text \<open>
  What a registered callback is called with. The callbacks are observers: the model
  records whether one is registered and the calls made, in order.
\<close>

datatype AttackInfo =
  NoAttack string
| MeleeAttack real Vec3
| GrabAttack real Vec3

datatype TitanCall = OnAttack AttackInfo | OnGrab AttackInfo | OnDeath

text \<open>
  The instance fields of \<^verbatim>\<open>TitanAI\<close>, but \<^verbatim>\<open>_target_entity\<close>, which is set to
  \<^verbatim>\<open>None\<close> and never read.
\<close>

record TitanAI =
  ta_data :: TitanData
  ta_behavior :: BehaviorPattern
  ta_current_state :: TitanState
  ta_previous_state :: TitanState
  ta_position :: Vec3
  ta_target :: "Vec3 option"
  ta_health :: real
  ta_max_health :: real
  ta_is_alive :: bool
  ta_nape_offset :: Vec3
  ta_nape_radius :: real
  ta_state_timer :: real
  ta_attack_cooldown :: real
  ta_response_timer :: real
  ta_direction_change_timer :: real
  ta_stun_timer :: real
  ta_velocity :: Vec3
  ta_wander_direction :: Vec3
  ta_on_attack_callback :: bool
  ta_on_grab_callback :: bool
  ta_on_death_callback :: bool
  ta_calls :: "TitanCall list"

text \<open>The instance that \<^verbatim>\<open>__init__\<close> builds from a profile, a behaviour and a position.\<close>

definition new_titan :: "TitanData \<Rightarrow> BehaviorPattern \<Rightarrow> Vec3 option \<Rightarrow> TitanAI" where
  "new_titan d b position =
     \<lparr>ta_data = d, ta_behavior = b, ta_current_state = IDLE, ta_previous_state = IDLE,
      ta_position = (case position of Some p \<Rightarrow> p | None \<Rightarrow> Vec3 0 0 0),
      ta_target = None, ta_health = td_health d, ta_max_health = td_health d,
      ta_is_alive = True,
      ta_nape_offset = Vec3 0 (td_height d * (9 / 10)) (- (5 / 10)),
      ta_nape_radius = td_height d * (1 / 10),
      ta_state_timer = 0, ta_attack_cooldown = 0, ta_response_timer = 0,
      ta_direction_change_timer = 0, ta_stun_timer = 0,
      ta_velocity = Vec3 0 0 0, ta_wander_direction = Vec3 1 0 0,
      ta_on_attack_callback = False, ta_on_grab_callback = False,
      ta_on_death_callback = False, ta_calls = []\<rparr>"


section \<open>TitanAI: behaviour\<close>

text \<open>\<^verbatim>\<open>_change_state\<close>\<close>

definition change_state :: "TitanAI \<Rightarrow> TitanState \<Rightarrow> TitanAI" where
  "change_state t new_state =
     (if new_state = ta_current_state t then t
      else t\<lparr>ta_previous_state := ta_current_state t, ta_current_state := new_state,
             ta_state_timer := 0\<rparr>)"

definition nape_position :: "TitanAI \<Rightarrow> Vec3" where
  "nape_position t =
     Vec3 (vec_x (ta_position t) + vec_x (ta_nape_offset t))
          (vec_y (ta_position t) + vec_y (ta_nape_offset t))
          (vec_z (ta_position t) + vec_z (ta_nape_offset t))"

definition detect_player :: "TitanAI \<Rightarrow> Vec3 option \<Rightarrow> bool \<times> TitanAI" where
  "detect_player t player_position =
     (case player_position of
        None \<Rightarrow> (False, t)
      | Some p \<Rightarrow>
          let distance = distance_to (ta_position t) p;
              detected = (distance \<le> td_detection_range (ta_data t))
          in if detected \<and> (ta_current_state t = IDLE \<or> ta_current_state t = WANDERING)
             then (detected, change_state (t\<lparr>ta_target := Some p\<rparr>) PURSUING)
             else (detected, t))"

definition is_player_in_attack_range :: "TitanAI \<Rightarrow> Vec3 option \<Rightarrow> bool" where
  "is_player_in_attack_range t player_position =
     (case player_position of
        None \<Rightarrow> False
      | Some p \<Rightarrow> distance_to (ta_position t) p \<le> td_attack_range (ta_data t))"

text \<open>
  \<^verbatim>\<open>pursue_target(dt)\<close>; \<open>angle\<close> is the value that
  \<^verbatim>\<open>random.uniform(-pi / 4, pi / 4)\<close> returns when the erratic style draws it.
\<close>

definition pursue_target :: "TitanAI \<Rightarrow> real \<Rightarrow> real \<Rightarrow> TitanAI" where
  "pursue_target t dt angle =
     (case ta_target t of
        None \<Rightarrow> t
      | Some target \<Rightarrow>
          let direction = direction_to (ta_position t) target;
              (t1, direction1) =
                (if bp_pursuit_style (ta_behavior t) = ''erratic'' then
                   let t2 = t\<lparr>ta_direction_change_timer := ta_direction_change_timer t + dt\<rparr>
                   in if ta_direction_change_timer t2
                           \<ge> bp_direction_change_interval (ta_behavior t2)
                      then
                        let t3 = t2\<lparr>ta_direction_change_timer := 0\<rparr>;
                            cos_a = cos angle;
                            sin_a = sin angle;
                            new_x = vec_x direction * cos_a - vec_z direction * sin_a;
                            new_z = vec_x direction * sin_a + vec_z direction * cos_a
                        in (t3, Vec3 new_x (vec_y direction) new_z)
                      else (t2, direction)
                 else if bp_pursuit_style (ta_behavior t) = ''maintain_distance'' then
                   let distance = distance_to (ta_position t) target
                   in if distance < bp_preferred_distance (ta_behavior t)
                      then (t, vec_mul direction (- 1))
                      else (t, direction)
                 else (t, direction));
              speed = td_speed (ta_data t1);
              t4 = t1\<lparr>ta_velocity := vec_mul direction1 speed\<rparr>
          in t4\<lparr>ta_position := vec_add (ta_position t4) (vec_mul (ta_velocity t4) dt)\<rparr>)"

text \<open>
  \<^verbatim>\<open>perform_attack\<close>. The float division \<^verbatim>\<open>2.0 / attack_frequency\<close> raises
  \<^verbatim>\<open>ZeroDivisionError\<close> when the frequency is zero; nothing has been written by then.
\<close>

definition perform_attack :: "TitanAI \<Rightarrow> (py_error + AttackInfo) \<times> TitanAI" where
  "perform_attack t =
     (if ta_attack_cooldown t > 0 then (Inr (NoAttack ''cooldown''), t)
      else if ta_current_state t = STUNNED then (Inr (NoAttack ''stunned''), t)
      else if bp_attack_frequency (ta_behavior t) = 0 then (Inl ZeroDivisionError, t)
      else
        let attack_interval = 2 / bp_attack_frequency (ta_behavior t);
            t1 = t\<lparr>ta_attack_cooldown := attack_interval\<rparr>;
            t2 = change_state t1 ATTACKING;
            attack_info = MeleeAttack (td_attack_damage (ta_data t2)) (ta_position t2);
            t3 = (if ta_on_attack_callback t2
                  then t2\<lparr>ta_calls := ta_calls t2 @ [OnAttack attack_info]\<rparr> else t2)
        in (Inr attack_info, t3))"

text \<open>\<^verbatim>\<open>perform_grab\<close>; \<open>r\<close> is the value of its \<^verbatim>\<open>random.random()\<close>.\<close>

definition perform_grab :: "TitanAI \<Rightarrow> real \<Rightarrow> AttackInfo \<times> TitanAI" where
  "perform_grab t r =
     (if ta_attack_cooldown t > 0 then (NoAttack ''cooldown'', t)
      else if ta_current_state t = STUNNED then (NoAttack ''stunned'', t)
      else if r > td_grab_chance (ta_data t) then (NoAttack ''chance_failed'', t)
      else
        let t1 = t\<lparr>ta_attack_cooldown := 3\<rparr>;
            t2 = change_state t1 GRABBING;
            grab_info = GrabAttack (td_attack_damage (ta_data t2) * (15 / 10)) (ta_position t2);
            t3 = (if ta_on_grab_callback t2
                  then t2\<lparr>ta_calls := ta_calls t2 @ [OnGrab grab_info]\<rparr> else t2)
        in (grab_info, t3))"

text \<open>
  \<^verbatim>\<open>try_attack_or_grab\<close>; \<open>r_choice\<close> is the draw that chooses between grab and
  attack, \<open>r_grab\<close> the draw of \<^verbatim>\<open>perform_grab\<close>.
\<close>

definition try_attack_or_grab ::
  "TitanAI \<Rightarrow> Vec3 option \<Rightarrow> real \<Rightarrow> real \<Rightarrow> (py_error + AttackInfo option) \<times> TitanAI"
where
  "try_attack_or_grab t player_position r_choice r_grab =
     (if \<not> is_player_in_attack_range t player_position then (Inr None, t)
      else if r_choice < td_grab_chance (ta_data t)
        then (let (info, t1) = perform_grab t r_grab in (Inr (Some info), t1))
      else (case perform_attack t of
              (Inl e, t1) \<Rightarrow> (Inl e, t1)
            | (Inr info, t1) \<Rightarrow> (Inr (Some info), t1)))"

definition die :: "TitanAI \<Rightarrow> TitanAI" where
  "die t =
     (let t1 = t\<lparr>ta_is_alive := False\<rparr>;
          t2 = change_state t1 DYING
      in if ta_on_death_callback t2 then t2\<lparr>ta_calls := ta_calls t2 @ [OnDeath]\<rparr> else t2)"

text \<open>
  \<^verbatim>\<open>_trigger_damage_response\<close>. The health ratio is a float division, which raises
  \<^verbatim>\<open>ZeroDivisionError\<close> when \<^verbatim>\<open>_max_health\<close> is zero, after the response timer was set.
\<close>

definition trigger_damage_response :: "TitanAI \<Rightarrow> py_error option \<times> TitanAI" where
  "trigger_damage_response t =
     (let t1 = t\<lparr>ta_response_timer := td_response_time (ta_data t)\<rparr>;
          default_response =
            (if ta_current_state t1 \<noteq> ATTACKING then change_state t1 ATTACKING else t1)
      in if bp_retreat_threshold (ta_behavior t1) > 0 then
           if ta_max_health t1 = 0 then (Some ZeroDivisionError, t1)
           else
             let health_ratio = ta_health t1 / ta_max_health t1
             in if health_ratio < bp_retreat_threshold (ta_behavior t1)
                then (None, change_state (t1\<lparr>ta_stun_timer := 1\<rparr>) STUNNED)
                else (None, default_response)
         else (None, default_response))"

text \<open>\<^verbatim>\<open>TitanAI.take_damage(damage, hit_nape)\<close>\<close>

definition take_damage :: "TitanAI \<Rightarrow> real \<Rightarrow> bool \<Rightarrow> (py_error + bool) \<times> TitanAI" where
  "take_damage t dmg hit_nape =
     (if \<not> ta_is_alive t then (Inr False, t)
      else
        let dmg1 = (if td_armor_reduction (ta_data t) > 0 \<and> \<not> hit_nape
                    then dmg * (1 - td_armor_reduction (ta_data t)) else dmg)
        in if hit_nape then (Inr True, die (t\<lparr>ta_health := 0, ta_is_alive := False\<rparr>))
           else
             let t1 = t\<lparr>ta_health := ta_health t - dmg1\<rparr>
             in case trigger_damage_response t1 of
                  (Some e, t2) \<Rightarrow> (Inl e, t2)
                | (None, t2) \<Rightarrow>
                    if ta_health t2 \<le> 0
                    then (Inr True, die (t2\<lparr>ta_health := 0, ta_is_alive := False\<rparr>))
                    else (Inr False, t2))"

text \<open>
  The random draws one call of \<^verbatim>\<open>update\<close> may consume: the choice between grab and
  attack, the draw inside \<^verbatim>\<open>perform_grab\<close>, the erratic pursuit angle and the wandering
  angle.
\<close>

record draws =
  rnd_choice :: real
  rnd_grab :: real
  rnd_erratic_angle :: real
  rnd_wander_angle :: real

definition behavior_idle :: "TitanAI \<Rightarrow> real \<Rightarrow> TitanAI" where
  "behavior_idle t dt = (if ta_state_timer t > 3 then change_state t WANDERING else t)"

definition behavior_wandering :: "TitanAI \<Rightarrow> real \<Rightarrow> real \<Rightarrow> TitanAI" where
  "behavior_wandering t dt angle =
     (let t1 = t\<lparr>ta_direction_change_timer := ta_direction_change_timer t + dt\<rparr>;
          t2 = (if ta_direction_change_timer t1 > 5
                then t1\<lparr>ta_direction_change_timer := 0,
                        ta_wander_direction := Vec3 (cos angle) 0 (sin angle)\<rparr>
                else t1);
          speed = td_speed (ta_data t2) * (3 / 10);
          t3 = t2\<lparr>ta_velocity := vec_mul (ta_wander_direction t2) speed\<rparr>
      in t3\<lparr>ta_position := vec_add (ta_position t3) (vec_mul (ta_velocity t3) dt)\<rparr>)"

definition behavior_pursuing :: "TitanAI \<Rightarrow> real \<Rightarrow> draws \<Rightarrow> py_error option \<times> TitanAI" where
  "behavior_pursuing t dt rnd =
     (case ta_target t of
        None \<Rightarrow> (None, change_state t WANDERING)
      | Some target \<Rightarrow>
          let distance = distance_to (ta_position t) target;
              (err, t1) =
                (if distance \<le> td_attack_range (ta_data t) then
                   if ta_attack_cooldown t \<le> 0 then
                     if rnd_choice rnd < td_grab_chance (ta_data t)
                     then (None, snd (perform_grab t (rnd_grab rnd)))
                     else (case perform_attack t of
                             (Inl e, t2) \<Rightarrow> (Some e, t2)
                           | (Inr _, t2) \<Rightarrow> (None, t2))
                   else (None, t)
                 else (None, pursue_target t dt (rnd_erratic_angle rnd)))
          in case err of
               Some e \<Rightarrow> (Some e, t1)
             | None \<Rightarrow>
                 if distance > td_detection_range (ta_data t1) * (15 / 10)
                 then (None, change_state (t1\<lparr>ta_target := None\<rparr>) WANDERING)
                 else (None, t1))"

definition behavior_attacking :: "TitanAI \<Rightarrow> real \<Rightarrow> TitanAI" where
  "behavior_attacking t dt = (if ta_state_timer t > 1 then change_state t PURSUING else t)"

definition behavior_grabbing :: "TitanAI \<Rightarrow> real \<Rightarrow> TitanAI" where
  "behavior_grabbing t dt = (if ta_state_timer t > 2 then change_state t PURSUING else t)"

definition behavior_stunned :: "TitanAI \<Rightarrow> real \<Rightarrow> TitanAI" where
  "behavior_stunned t dt = t"

definition behavior_dying :: "TitanAI \<Rightarrow> real \<Rightarrow> TitanAI" where
  "behavior_dying t dt = t"

definition execute_state_behavior :: "TitanAI \<Rightarrow> real \<Rightarrow> draws \<Rightarrow> py_error option \<times> TitanAI" where
  "execute_state_behavior t dt rnd =
     (case ta_current_state t of
        IDLE \<Rightarrow> (None, behavior_idle t dt)
      | WANDERING \<Rightarrow> (None, behavior_wandering t dt (rnd_wander_angle rnd))
      | PURSUING \<Rightarrow> behavior_pursuing t dt rnd
      | ATTACKING \<Rightarrow> (None, behavior_attacking t dt)
      | GRABBING \<Rightarrow> (None, behavior_grabbing t dt)
      | STUNNED \<Rightarrow> (None, behavior_stunned t dt)
      | DYING \<Rightarrow> (None, behavior_dying t dt))"

text \<open>
  The timer block of \<^verbatim>\<open>update\<close>: the state timer, the attack cooldown, the response
  timer, and the stun timer, whose expiry switches back to the recorded previous state.
  The code holds each timer as a double and rounds every subtraction, so after several
  updates its timer can differ from the exact difference in the last place (ten updates
  of 0.1 leave a positive remainder of the second). The test of one update is not
  affected: the rounded difference of two doubles is at most zero exactly when the exact
  difference is. The properties of the stun are therefore stated of one update, in terms
  of the timer the instance holds.
\<close>

definition update_timers :: "TitanAI \<Rightarrow> real \<Rightarrow> TitanAI" where
  "update_timers t dt =
     (let t1 = t\<lparr>ta_state_timer := ta_state_timer t + dt\<rparr>;
          t2 = (if ta_attack_cooldown t1 > 0
                then t1\<lparr>ta_attack_cooldown := ta_attack_cooldown t1 - dt\<rparr> else t1);
          t3 = (if ta_response_timer t2 > 0
                then t2\<lparr>ta_response_timer := ta_response_timer t2 - dt\<rparr> else t2)
      in if ta_stun_timer t3 > 0 then
           let t4 = t3\<lparr>ta_stun_timer := ta_stun_timer t3 - dt\<rparr>
           in if ta_stun_timer t4 \<le> 0 then change_state t4 (ta_previous_state t4) else t4
         else t3)"

text \<open>\<^verbatim>\<open>TitanAI.update(dt, player_position)\<close>\<close>

definition update :: "TitanAI \<Rightarrow> real \<Rightarrow> Vec3 option \<Rightarrow> draws \<Rightarrow> py_error option \<times> TitanAI" where
  "update t dt player_position rnd =
     (if \<not> ta_is_alive t then (None, t)
      else
        let t1 = update_timers t dt;
            t2 = (case player_position of
                    Some p \<Rightarrow> t1\<lparr>ta_target := Some p\<rparr>
                  | None \<Rightarrow> t1)
        in execute_state_behavior t2 dt rnd)"

text \<open>
  A saved state, as the dictionary \<^verbatim>\<open>set_state\<close> reads: every key may be missing, and so
  may each coordinate of \<^verbatim>\<open>position\<close>.
\<close>

record SavedTitan =
  sv_position :: "(real option \<times> real option \<times> real option) option"
  sv_health :: "real option"
  sv_is_alive :: "bool option"
  sv_current_state :: "string option"

definition or_default :: "'a option \<Rightarrow> 'a \<Rightarrow> 'a" where
  "or_default v d = (case v of Some a \<Rightarrow> a | None \<Rightarrow> d)"

text \<open>\<^verbatim>\<open>TitanAI.set_state\<close>\<close>

definition TitanAI_set_state :: "TitanAI \<Rightarrow> SavedTitan \<Rightarrow> TitanAI" where
  "TitanAI_set_state t state =
     (let (px, py, pz) = or_default (sv_position state) (None, None, None);
          t1 = t\<lparr>ta_position := Vec3 (or_default px 0) (or_default py 0) (or_default pz 0),
                 ta_health := or_default (sv_health state) (ta_max_health t),
                 ta_is_alive := or_default (sv_is_alive state) True\<rparr>;
          state_str = or_default (sv_current_state state) ''idle''
      in case TitanState_of state_str of
           Inr s \<Rightarrow> t1\<lparr>ta_current_state := s\<rparr>
         | Inl _ \<Rightarrow> t1\<lparr>ta_current_state := IDLE\<rparr>)"

text \<open>\<^verbatim>\<open>TitanAI.reset\<close>\<close>

definition TitanAI_reset :: "TitanAI \<Rightarrow> TitanAI" where
  "TitanAI_reset t =
     t\<lparr>ta_health := ta_max_health t, ta_is_alive := True, ta_current_state := IDLE,
       ta_previous_state := IDLE, ta_target := None, ta_state_timer := 0,
       ta_attack_cooldown := 0, ta_response_timer := 0, ta_stun_timer := 0,
       ta_velocity := Vec3 0 0 0\<rparr>"

subsection \<open>Example data files for the construction properties\<close>




subsection \<open>Call sequences and example states for the TitanAI properties\<close>

text \<open>
  The public operations of a \<^verbatim>\<open>TitanAI\<close> instance, each with its arguments and the
  random draws it reads. \<open>apply_op\<close> is the instance after the call, whether the call
  returned or raised.
\<close>

datatype titan_op =
  OpUpdate real "Vec3 option" draws
| OpDetectPlayer "Vec3 option"
| OpPursueTarget real real
| OpPerformAttack
| OpPerformGrab real
| OpTryAttackOrGrab "Vec3 option" real real
| OpTakeDamage real bool
| OpDie
| OpSetPosition Vec3
| OpSetOnAttackCallback bool
| OpSetOnGrabCallback bool
| OpSetOnDeathCallback bool
| OpSetState SavedTitan
| OpReset

fun apply_op :: "TitanAI \<Rightarrow> titan_op \<Rightarrow> TitanAI" where
  "apply_op t (OpUpdate dt player_position rnd) = snd (update t dt player_position rnd)"
| "apply_op t (OpDetectPlayer player_position) = snd (detect_player t player_position)"
| "apply_op t (OpPursueTarget dt angle) = pursue_target t dt angle"
| "apply_op t OpPerformAttack = snd (perform_attack t)"
| "apply_op t (OpPerformGrab r) = snd (perform_grab t r)"
| "apply_op t (OpTryAttackOrGrab player_position r_choice r_grab) =
     snd (try_attack_or_grab t player_position r_choice r_grab)"
| "apply_op t (OpTakeDamage dmg hit_nape) = snd (take_damage t dmg hit_nape)"
| "apply_op t OpDie = die t"
| "apply_op t (OpSetPosition p) = t\<lparr>ta_position := p\<rparr>"
| "apply_op t (OpSetOnAttackCallback c) = t\<lparr>ta_on_attack_callback := c\<rparr>"
| "apply_op t (OpSetOnGrabCallback c) = t\<lparr>ta_on_grab_callback := c\<rparr>"
| "apply_op t (OpSetOnDeathCallback c) = t\<lparr>ta_on_death_callback := c\<rparr>"
| "apply_op t (OpSetState state) = TitanAI_set_state t state"
| "apply_op t OpReset = TitanAI_reset t"

definition run_ops :: "TitanAI \<Rightarrow> titan_op list \<Rightarrow> TitanAI" where
  "run_ops t ops = foldl apply_op t ops"

text \<open>The two operations that restore an instance: loading a saved state and the reset.\<close>

fun restores :: "titan_op \<Rightarrow> bool" where
  "restores (OpSetState state) = True"
| "restores OpReset = True"
| "restores op = False"



text \<open>The damage that \<^verbatim>\<open>take_damage\<close> subtracts for a hit off the nape.\<close>

definition body_damage :: "TitanAI \<Rightarrow> real \<Rightarrow> real" where
  "body_damage t dmg =
     (if td_armor_reduction (ta_data t) > 0 then dmg * (1 - td_armor_reduction (ta_data t))
      else dmg)"


definition cautious_behavior :: BehaviorPattern where
  "cautious_behavior =
     \<lparr>bp_name = ''cautious'', bp_description = '''', bp_pursuit_style = ''direct'',
      bp_attack_frequency = 1, bp_retreat_threshold = 5 / 10,
      bp_direction_change_interval = 0, bp_preferred_distance = 0\<rparr>"

text \<open>A 3m titan at the origin, with the default profile and a retreat threshold of 0.5.\<close>

definition cautious_titan :: TitanAI where
  "cautious_titan = new_titan default_titan_data cautious_behavior None"

definition no_draws :: draws where
  "no_draws = \<lparr>rnd_choice = 5 / 10, rnd_grab = 5 / 10, rnd_erratic_angle = 0,
               rnd_wander_angle = 0\<rparr>"


text \<open>
  A titan whose profile has health 0, so that its maximal health is 0, restored from a
  save with health 50.
\<close>

definition zero_max_health_titan :: TitanAI where
  "zero_max_health_titan =
     TitanAI_set_state (new_titan (default_titan_data\<lparr>td_health := 0\<rparr>) cautious_behavior None)
       \<lparr>sv_position = None, sv_health = Some 50, sv_is_alive = None, sv_current_state = None\<rparr>"




section \<open>Properties of ResourceSystem\<close>

text \<open>
  C8. For every resource state and every amount that is negative or greater than the
  current level, \<^verbatim>\<open>consume_gas\<close> and \<^verbatim>\<open>consume_blade_durability\<close> return false and
  leave every field of the resource state as it was.
\<close>

theorem consume_rejects_without_change:
  "(amount < 0 \<or> rs_gas_level rs < amount \<longrightarrow> consume_gas rs amount = (False, rs)) \<and>
   (amount < 0 \<or> rs_blade_durability rs < amount \<longrightarrow>
      consume_blade_durability rs amount = (False, rs))"
  by (simp add: consume_gas_def consume_blade_durability_def)

theorem consume_rejects_without_change_witness:
  "((- 1 :: real) < 0 \<or> rs_gas_level default_resources < - 1) \<and>
   consume_gas default_resources (- 1) = (False, default_resources) \<and>
   ((250 :: real) < 0 \<or> rs_blade_durability default_resources < 250) \<and>
   consume_blade_durability default_resources 250 = (False, default_resources)"
  using consume_rejects_without_change [of "- 1" default_resources]
        consume_rejects_without_change [of 250 default_resources]
  by (simp add: default_resources_def)

section \<open>Properties of ODMSystem\<close>

subsection \<open>The search for an attach point\<close>

lemma attach_scan_Cons:
  "attach_scan origin d r (s # rest) best =
     attach_scan origin d r rest
       (if scan_accepts origin d r s \<and>
           (case best of None \<Rightarrow> True | Some (_, bd) \<Rightarrow> surface_distance origin s < bd)
        then Some (s, surface_distance origin s) else best)"
  by (auto simp: scan_accepts_def surface_distance_def Let_def not_less split: option.splits)

lemma attach_scan_None:
  "attach_scan origin d r xs best = None \<longleftrightarrow>
     best = None \<and> (\<forall>s\<in>set xs. \<not> scan_accepts origin d r s)"
proof (induction xs arbitrary: best)
  case Nil
  show ?case by simp
next
  case (Cons s rest)
  show ?case
    unfolding attach_scan_Cons Cons.IH
    by (auto split: option.splits)
qed

lemma find_attach_point_None:
  "find_attach_point odm origin direction = None \<longleftrightarrow>
     (\<forall>s\<in>set (odm_surfaces odm). \<not> attach_candidate origin direction (odm_hook_range odm) s)"
  by (simp add: find_attach_point_def attach_scan_None attach_candidate_def)

lemma get_set_hook: "get_hook (set_hook odm side h) side = h"
  by (simp add: get_hook_def set_hook_def)

lemma set_hook_frame:
  "odm_position (set_hook odm side h) = odm_position odm"
  "odm_velocity (set_hook odm side h) = odm_velocity odm"
  "odm_surfaces (set_hook odm side h) = odm_surfaces odm"
  "odm_hook_range (set_hook odm side h) = odm_hook_range odm"
  by (simp_all add: set_hook_def)

lemma magnitude_axis:
  "magnitude (Vec3 0 0 0) = 0" "magnitude (Vec3 0 0 1) = 1" "magnitude (Vec3 0 0 (- 1)) = 1"
  "magnitude (Vec3 0 1 0) = 1"
  by (simp_all add: magnitude_def)

subsection \<open>Firing a hook\<close>

lemma attach_scan_Some:
  assumes "attach_scan origin d r xs best = Some (s, ds)"
    and "\<And>b bd. best = Some (b, bd) \<Longrightarrow> bd = surface_distance origin b"
  shows "ds = surface_distance origin s \<and>
         ((s \<in> set xs \<and> scan_accepts origin d r s) \<or> best = Some (s, ds)) \<and>
         (\<forall>c\<in>set xs. scan_accepts origin d r c \<longrightarrow> ds \<le> surface_distance origin c) \<and>
         (\<forall>b bd. best = Some (b, bd) \<longrightarrow> ds \<le> bd)"
  using assms
proof (induction xs arbitrary: best)
  case Nil
  then show ?case by auto
next
  case (Cons x rest)
  let ?best' = "(if scan_accepts origin d r x \<and>
           (case best of None \<Rightarrow> True | Some (_, bd) \<Rightarrow> surface_distance origin x < bd)
        then Some (x, surface_distance origin x) else best)"
  have run: "attach_scan origin d r rest ?best' = Some (s, ds)"
    using Cons.prems(1) unfolding attach_scan_Cons .
  have inv: "\<And>b bd. ?best' = Some (b, bd) \<Longrightarrow> bd = surface_distance origin b"
    using Cons.prems(2) by (auto split: if_splits)
  note IH = Cons.IH [OF run inv]
  show ?case
    using IH by (auto split: if_splits option.splits)
qed

lemma find_attach_point_Some:
  assumes "find_attach_point odm origin direction = Some s"
  shows "s \<in> set (odm_surfaces odm) \<and> attach_candidate origin direction (odm_hook_range odm) s \<and>
         (\<forall>c\<in>set (odm_surfaces odm). attach_candidate origin direction (odm_hook_range odm) c \<longrightarrow>
              surface_distance origin s \<le> surface_distance origin c)"
proof -
  from assms obtain ds where
    "attach_scan origin (normalized direction) (odm_hook_range odm) (odm_surfaces odm) None = Some (s, ds)"
    by (auto simp: find_attach_point_def)
  from attach_scan_Some [OF this] show ?thesis
    by (auto simp: attach_candidate_def)
qed

lemma hook_overwrite:
  "(h :: HookState)\<lparr>is_attached := a, attach_point := p, rope_length := r, tension := t\<rparr> =
     \<lparr>is_attached = a, attach_point = p, rope_length = r, tension = t\<rparr>"
  by (cases h) simp

lemma set_hook_twice: "set_hook (set_hook odm side h) side h' = set_hook odm side h'"
  by (simp add: set_hook_def)

text \<open>
  C5 (amended). \<^verbatim>\<open>fire_hook\<close> considers exactly the valid surfaces within
  \<^verbatim>\<open>hook_range\<close> of the current position that lie at distance zero from the player or
  whose normalized direction from the player has dot-product at least 0.5 with the
  normalized aim direction. If there is such a surface, it returns true and the hook of
  the targeted side becomes attached to a nearest one, with \<^verbatim>\<open>rope_length\<close> equal to the
  distance between player and surface and \<^verbatim>\<open>tension = 0\<close>; otherwise it returns false.
\<close>

theorem fire_hook_attaches_nearest:
  "(if \<exists>s\<in>set (odm_surfaces odm).
          attach_candidate (odm_position odm) direction (odm_hook_range odm) s
    then \<exists>s\<in>set (odm_surfaces odm).
           attach_candidate (odm_position odm) direction (odm_hook_range odm) s \<and>
           (\<forall>c\<in>set (odm_surfaces odm).
              attach_candidate (odm_position odm) direction (odm_hook_range odm) c \<longrightarrow>
              surface_distance (odm_position odm) s \<le> surface_distance (odm_position odm) c) \<and>
           fire_hook odm direction hook_side =
             (True,
              set_hook odm hook_side
                \<lparr>is_attached = True, attach_point = sf_position s,
                 rope_length = surface_distance (odm_position odm) s, tension = 0\<rparr>)
    else fst (fire_hook odm direction hook_side) = False)"
proof -
  define odm1 where
    "odm1 = (if is_attached (get_hook odm hook_side) then release_hook odm hook_side else odm)"
  have same: "odm_position odm1 = odm_position odm" "odm_surfaces odm1 = odm_surfaces odm"
    "odm_hook_range odm1 = odm_hook_range odm"
    by (simp_all add: odm1_def release_hook_def set_hook_frame)
  have overwrite: "set_hook odm1 hook_side h = set_hook odm hook_side h" for h
    by (simp add: odm1_def release_hook_def set_hook_twice)
  show ?thesis
  proof (cases "find_attach_point odm1 (odm_position odm1) direction")
    case None
    then have "\<forall>s\<in>set (odm_surfaces odm).
        \<not> attach_candidate (odm_position odm) direction (odm_hook_range odm) s"
      by (simp add: find_attach_point_None same)
    moreover have "fst (fire_hook odm direction hook_side) = False"
      using None by (simp add: fire_hook_def odm1_def [symmetric] Let_def)
    ultimately show ?thesis by simp
  next
    case (Some s)
    note props = find_attach_point_Some [OF Some, unfolded same]
    have "fire_hook odm direction hook_side =
             (True,
              set_hook odm hook_side
                \<lparr>is_attached = True, attach_point = sf_position s,
                 rope_length = surface_distance (odm_position odm) s, tension = 0\<rparr>)"
      using Some
      by (simp add: fire_hook_def odm1_def [symmetric] Let_def overwrite same
          surface_distance_def hook_overwrite)
    with props show ?thesis by auto
  qed
qed

lemma hook_example_candidates:
  "\<not> attach_candidate (Vec3 0 0 0) (Vec3 0 0 1) 50 (surface_at (Vec3 0 0 1) False)"
  "\<not> attach_candidate (Vec3 0 0 0) (Vec3 0 0 1) 50 (surface_at (Vec3 0 0 (- 1)) True)"
  "attach_candidate (Vec3 0 0 0) (Vec3 0 0 1) 50 (surface_at (Vec3 0 0 1) True)"
  "\<not> attach_candidate (Vec3 0 0 0) (Vec3 0 0 1) 50 (surface_at (Vec3 0 1 0) True)"
  by (simp_all add: attach_candidate_def scan_accepts_def surface_distance_def surface_at_def
      vec_sub_def normalized_def vec_truediv_def dot_def magnitude_axis)

theorem fire_hook_attaches_nearest_witness:
  "(\<exists>s\<in>set (odm_surfaces hook_example).
      attach_candidate (odm_position hook_example) (Vec3 0 0 1) (odm_hook_range hook_example) s) \<and>
   fst (fire_hook hook_example (Vec3 0 0 1) ''right'') = True \<and>
   odm_right_hook (snd (fire_hook hook_example (Vec3 0 0 1) ''right'')) =
     \<lparr>is_attached = True, attach_point = Vec3 0 0 1, rope_length = 1, tension = 0\<rparr>"
proof -
  have fields: "odm_surfaces hook_example =
      [surface_at (Vec3 0 0 1) False, surface_at (Vec3 0 0 (- 1)) True,
       surface_at (Vec3 0 0 1) True, surface_at (Vec3 0 1 0) True]"
    "odm_position hook_example = Vec3 0 0 0" "odm_hook_range hook_example = 50"
    by (simp_all add: hook_example_def ODMSystem_init_def)
  show ?thesis
    using fire_hook_attaches_nearest [of hook_example "Vec3 0 0 1" "''right''"]
    by (simp add: fields hook_example_candidates set_hook_def)
      (simp add: surface_at_def surface_distance_def vec_sub_def magnitude_axis)
qed

text \<open>
  C5 as stated fails for a surface at the player's own position: its normalized direction
  is the zero vector, whose dot-product with any aim is 0, so it is no candidate in the
  specification's sense; the code skips the direction test at distance zero and attaches
  to it.
\<close>

theorem fire_hook_zero_distance_counterexample:
  "\<not> spec_candidate (odm_position zero_distance_example) (Vec3 0 0 1)
       (odm_hook_range zero_distance_example) (surface_at (Vec3 0 0 0) True) \<and>
   odm_surfaces zero_distance_example = [surface_at (Vec3 0 0 0) True] \<and>
   fire_hook zero_distance_example (Vec3 0 0 1) ''right'' =
     (True,
      zero_distance_example
        \<lparr>odm_right_hook := \<lparr>is_attached = True, attach_point = Vec3 0 0 0, rope_length = 0,
                             tension = 0\<rparr>\<rparr>)"
  by (simp add: zero_distance_example_def ODMSystem_init_def spec_candidate_def surface_at_def
      surface_distance_def vec_sub_def normalized_def vec_truediv_def dot_def fire_hook_def
      find_attach_point_def get_hook_def set_hook_def Let_def magnitude_axis)

subsection \<open>A failed shot from an attached hook\<close>

text \<open>
  C10. When the targeted side is attached and no surface qualifies for the search of
  \<^verbatim>\<open>_find_attach_point\<close>, \<^verbatim>\<open>fire_hook\<close> returns false and its result is the system
  with that hook released: the hook is reset (detached), and position and velocity are
  those before the call.
\<close>

theorem fire_hook_failure_detaches:
  assumes "is_attached (get_hook odm hook_side)"
    and "\<forall>s\<in>set (odm_surfaces odm).
           \<not> attach_candidate (odm_position odm) direction (odm_hook_range odm) s"
  shows "fire_hook odm direction hook_side = (False, release_hook odm hook_side) \<and>
         get_hook (release_hook odm hook_side) hook_side =
           \<lparr>is_attached = False, attach_point = Vec3 0 0 0, rope_length = 0, tension = 0\<rparr> \<and>
         odm_position (release_hook odm hook_side) = odm_position odm \<and>
         odm_velocity (release_hook odm hook_side) = odm_velocity odm"
proof -
  have "find_attach_point (release_hook odm hook_side) (odm_position odm) direction = None"
    using assms(2) by (simp add: find_attach_point_None release_hook_def set_hook_frame)
  moreover have "HookState_reset h =
      \<lparr>is_attached = False, attach_point = Vec3 0 0 0, rope_length = 0, tension = 0\<rparr>" for h
    by (cases h) (simp add: HookState_reset_def)
  ultimately show ?thesis
    using assms(1)
    by (simp add: fire_hook_def release_hook_def get_set_hook set_hook_frame)
qed

theorem fire_hook_failure_detaches_witness:
  "is_attached (get_hook hook_example ''right'') \<and>
   filter (attach_candidate (odm_position hook_example) (Vec3 0 0 0)
             (odm_hook_range hook_example)) (odm_surfaces hook_example) = [] \<and>
   fire_hook hook_example (Vec3 0 0 0) ''right'' =
     (False, hook_example\<lparr>odm_right_hook :=
        \<lparr>is_attached = False, attach_point = Vec3 0 0 0, rope_length = 0, tension = 0\<rparr>\<rparr>)"
proof -
  have att: "is_attached (get_hook hook_example ''right'')"
    by (simp add: hook_example_def get_hook_def)
  have none: "\<forall>s\<in>set (odm_surfaces hook_example).
      \<not> attach_candidate (odm_position hook_example) (Vec3 0 0 0) (odm_hook_range hook_example) s"
    by (simp add: hook_example_def ODMSystem_init_def attach_candidate_def scan_accepts_def
        surface_distance_def surface_at_def vec_sub_def normalized_def vec_truediv_def dot_def
        magnitude_axis)
  show ?thesis
    using fire_hook_failure_detaches [OF att none] att none
    by (simp add: release_hook_def set_hook_def HookState_reset_def get_hook_def
        filter_empty_conv)
qed

subsection \<open>The swing step\<close>

lemma apply_hook_constraint_position:
  "odm_position (apply_hook_constraint odm side dt) = odm_position odm"
  by (simp add: apply_hook_constraint_def Let_def set_hook_def)

lemma vec_drag: "vec_add v (vec_mul v (- k)) = vec_mul v (1 - k)"
  by (cases v) (simp add: vec_add_def vec_mul_def algebra_simps)

text \<open>
  C3 (amended). For \<open>dt > 0\<close>, \<^verbatim>\<open>update_swing_physics\<close> multiplies the velocity obtained
  after gravity and both hook constraints by \<open>1 - AIR_RESISTANCE\<close>, a factor that does
  not depend on \<open>dt\<close>, and only then integrates the position with the damped velocity,
  \<open>p += v * dt\<close>. The hooks are those left by the two constraints.
\<close>

theorem swing_drag_then_integrate:
  "0 < dt \<Longrightarrow>
   odm_velocity (update_swing_physics odm dt) =
     vec_mul (odm_velocity (constrained odm dt)) (1 - AIR_RESISTANCE) \<and>
   odm_position (update_swing_physics odm dt) =
     vec_add (odm_position odm) (vec_mul (odm_velocity (update_swing_physics odm dt)) dt) \<and>
   odm_left_hook (update_swing_physics odm dt) = odm_left_hook (constrained odm dt) \<and>
   odm_right_hook (update_swing_physics odm dt) = odm_right_hook (constrained odm dt)"
  by (simp add: update_swing_physics_def constrained_def Let_def vec_drag
      apply_hook_constraint_position)

theorem swing_drag_then_integrate_witness:
  "(0 :: real) < 2 \<and>
   odm_velocity (constrained swing_example 2) = Vec3 100 (- (196 / 10)) 0 \<and>
   odm_velocity (update_swing_physics swing_example 2) = Vec3 98 (- (19208 / 1000)) 0 \<and>
   odm_position (update_swing_physics swing_example 2) = Vec3 196 (- (38416 / 1000)) 0"
proof -
  have c: "constrained swing_example 2 = swing_example\<lparr>odm_velocity := Vec3 100 (- (196 / 10)) 0\<rparr>"
    by (simp add: constrained_def swing_example_def ODMSystem_init_def apply_hook_constraint_def
        get_hook_def GRAVITY_def vec_add_def vec_mul_def Let_def)
  show ?thesis
    using swing_drag_then_integrate [of 2 swing_example]
    by (simp add: c) (simp add: swing_example_def ODMSystem_init_def vec_mul_def vec_add_def
        AIR_RESISTANCE_def)
qed

text \<open>
  C3 as stated fails: with \<open>dt = 2\<close> the velocity after the step is neither the
  constrained velocity times \<open>1 - AIR_RESISTANCE * dt\<close> nor times
  \<open>(1 - AIR_RESISTANCE) ^ dt\<close>.
\<close>

theorem swing_drag_counterexample:
  "odm_velocity (update_swing_physics swing_example 2) \<noteq>
     spec_drag_scaled (odm_velocity (constrained swing_example 2)) 2 \<and>
   odm_velocity (update_swing_physics swing_example 2) \<noteq>
     vec_mul (odm_velocity (constrained swing_example 2)) ((1 - AIR_RESISTANCE) ^ 2)"
  by (simp add: update_swing_physics_def constrained_def swing_example_def ODMSystem_init_def
      apply_hook_constraint_def get_hook_def GRAVITY_def vec_add_def vec_mul_def
      spec_drag_scaled_def AIR_RESISTANCE_def Let_def power2_eq_square)

section \<open>Properties of CombatSystem\<close>

text \<open>
  C1. For every living target and every combat system whose attacks are enabled (blade
  durability above zero), \<^verbatim>\<open>perform_slash\<close> with a hit point whose distance to the
  target's absolute nape position is at most the nape radius returns a result with
  \<^verbatim>\<open>killed = True\<close> (and \<^verbatim>\<open>hit\<close>, \<^verbatim>\<open>is_critical\<close>), whatever the target's health was;
  the target is left dead with health 0.
\<close>

theorem nape_hit_always_kills:
  assumes "attack_enabled cs" and "hb_is_alive t"
    and "distance_to hit_point (get_absolute_nape_position t) \<le> hb_nape_radius t"
  shows "ar_killed (fst (perform_slash cs (Some t) (Some hit_point) attack_speed now)) \<and>
         ar_hit (fst (perform_slash cs (Some t) (Some hit_point) attack_speed now)) \<and>
         ar_is_critical (fst (perform_slash cs (Some t) (Some hit_point) attack_speed now)) \<and>
         snd (snd (perform_slash cs (Some t) (Some hit_point) attack_speed now)) =
           Some (t\<lparr>hb_health := 0, hb_is_alive := False\<rparr>)"
proof -
  have nape: "check_nape_hit (Some t) (Some hit_point)"
    using assms(3) by (simp add: check_nape_hit_def is_point_in_nape_def)
  have dead: "TitanHitbox_take_damage t d True = (True, t\<lparr>hb_health := 0, hb_is_alive := False\<rparr>)"
    for d
    using assms(2) by (simp add: TitanHitbox_take_damage_def)
  show ?thesis
    using assms(1,2) nape dead
    by (simp add: perform_slash_def Let_def split: prod.splits)
qed

theorem nape_hit_always_kills_witness:
  "attack_enabled combat_example \<and> hb_is_alive titan_example \<and>
   hb_health titan_example = hb_max_health titan_example \<and>
   distance_to (Vec3 0 5 (- 1)) (get_absolute_nape_position titan_example)
     \<le> hb_nape_radius titan_example \<and>
   ar_killed (fst (perform_slash combat_example (Some titan_example) (Some (Vec3 0 5 (- 1))) 0 1000))"
proof -
  have a: "attack_enabled combat_example"
    by (simp add: attack_enabled_def combat_example_def CombatSystem_init_def)
  have b: "hb_is_alive titan_example"
    by (simp add: titan_example_def TitanHitbox_init_def)
  have c: "distance_to (Vec3 0 5 (- 1)) (get_absolute_nape_position titan_example)
     \<le> hb_nape_radius titan_example"
    by (simp add: titan_example_def TitanHitbox_init_def distance_to_def
        get_absolute_nape_position_def)
  show ?thesis
    using nape_hit_always_kills [OF a b c, of 0 1000] a b c
    by (simp add: titan_example_def TitanHitbox_init_def)
qed

subsection \<open>The combo window\<close>



text \<open>
  The combo count starts at 0, and kills, \<^verbatim>\<open>update_combo\<close> and \<^verbatim>\<open>reset_combo\<close> keep it
  from becoming negative; \<^verbatim>\<open>set_state\<close> stores whatever count the save holds.
\<close>

lemma combo_count_nonneg:
  "0 \<le> cs_combo_count cs \<Longrightarrow>
     0 \<le> cs_combo_count (update_combo_on_kill cs now) \<and>
     0 \<le> cs_combo_count (update_combo cs dt now) \<and>
     0 \<le> cs_combo_count (reset_combo cs) \<and>
     0 \<le> cs_combo_count (fst (snd (perform_slash cs titan hit_point speed now)))"
  by (auto simp: update_combo_on_kill_def update_combo_def reset_combo_def perform_slash_def
      Let_def calculate_damage_def split: option.splits prod.splits)



section \<open>Properties of the capture event\<close>

lemma ascii_lower_adds_32:
  "65 \<le> (of_char c :: nat) \<Longrightarrow> (of_char c :: nat) \<le> 90 \<Longrightarrow>
   (of_char (ascii_lower c) :: nat) = of_char c + 32"
  by (cases c) (auto simp: ascii_lower_def Let_def of_bool_def split: if_splits)

text \<open>
  C9 (amended). \<^verbatim>\<open>process_qte_input(key)\<close> returns true exactly when a QTE exists, is
  still active (neither succeeded nor failed) and the key equals the required key up to
  letter case; it then puts the player in the airborne state with the escape velocity
  \<open>(0, 5, -3)\<close>, forgets the grabbing titan and the QTE, and reports the success to a
  registered callback. In every other case it returns false and changes nothing.
\<close>

theorem process_qte_input_case_insensitive:
  "process_qte_input p key =
     (if (case pl_current_qte p of None \<Rightarrow> False
          | Some qte \<Rightarrow> qte_is_active qte \<and> py_lower key = py_lower (qte_required_key qte))
      then (True,
            p\<lparr>pl_current_state := PS_AIRBORNE, pl_grabbing_titan := None,
              pl_velocity := Vec3 0 5 (- 3),
              pl_qte_result_calls :=
                (if pl_on_qte_result_callback p then pl_qte_result_calls p @ [True]
                 else pl_qte_result_calls p),
              pl_current_qte := None\<rparr>)
      else (False, p))"
  by (auto simp: process_qte_input_def check_input_def escape_grab_def Let_def
      split: option.splits)

theorem process_qte_input_case_insensitive_witness:
  "process_qte_input grabbed_example ''e'' =
     (True, grabbed_example\<lparr>pl_current_state := PS_AIRBORNE, pl_grabbing_titan := None,
              pl_velocity := Vec3 0 5 (- 3), pl_current_qte := None\<rparr>) \<and>
   process_qte_input grabbed_example ''q'' = (False, grabbed_example) \<and>
   process_qte_input (grabbed_example\<lparr>pl_current_qte := None\<rparr>) ''e'' =
     (False, grabbed_example\<lparr>pl_current_qte := None\<rparr>)"
  using process_qte_input_case_insensitive [of grabbed_example "''e''"]
    process_qte_input_case_insensitive [of grabbed_example "''q''"]
    process_qte_input_case_insensitive [of "grabbed_example\<lparr>pl_current_qte := None\<rparr>" "''e''"]
  by (simp add: grabbed_example_def qte_is_active_def py_lower_def ascii_lower_def)

text \<open>
  C9 as stated fails: the comparison lower-cases both sides, so the key \<^verbatim>\<open>E\<close>, which is
  not the required \<^verbatim>\<open>e\<close>, escapes the grab.
\<close>

theorem process_qte_input_exact_match_counterexample:
  "''E'' \<noteq> qte_required_key (the (pl_current_qte grabbed_example)) \<and>
   fst (process_qte_input grabbed_example ''E'') = True"
  by (simp add: grabbed_example_def process_qte_input_def check_input_def qte_is_active_def
      py_lower_def ascii_lower_def escape_grab_def Let_def)

section \<open>Properties of TitanAI construction\<close>





















section \<open>Properties of TitanAI: death is final\<close>

lemma change_state_alive: "ta_is_alive (change_state t s) = ta_is_alive t"
  by (simp add: change_state_def)

lemma die_result:
  "\<not> ta_is_alive (die t)" "ta_current_state (die t) = DYING" "ta_health (die t) = ta_health t"
  by (simp_all add: die_def Let_def change_state_def)

lemma detect_player_alive: "ta_is_alive (snd (detect_player t pp)) = ta_is_alive t"
  by (simp add: detect_player_def Let_def change_state_alive split: option.splits)

lemma pursue_target_alive: "ta_is_alive (pursue_target t dt a) = ta_is_alive t"
  by (simp add: pursue_target_def Let_def split: option.splits prod.splits)

lemma perform_attack_alive: "ta_is_alive (snd (perform_attack t)) = ta_is_alive t"
  by (simp add: perform_attack_def Let_def change_state_alive)

lemma perform_grab_alive: "ta_is_alive (snd (perform_grab t r)) = ta_is_alive t"
  by (simp add: perform_grab_def Let_def change_state_alive)

lemma try_attack_or_grab_alive:
  "ta_is_alive (snd (try_attack_or_grab t pp r1 r2)) = ta_is_alive t"
proof -
  obtain i g where g: "perform_grab t r2 = (i, g)"
    by (cases "perform_grab t r2")
  obtain e a where a: "perform_attack t = (e, a)"
    by (cases "perform_attack t")
  have "ta_is_alive g = ta_is_alive t"
    using perform_grab_alive [of t r2] g by simp
  moreover have "ta_is_alive a = ta_is_alive t"
    using perform_attack_alive [of t] a by simp
  ultimately show ?thesis
    by (simp add: try_attack_or_grab_def g a split: sum.splits)
qed

lemma dead_calls_return:
  "\<not> ta_is_alive t \<Longrightarrow> update t dt pp rnd = (None, t)"
  "\<not> ta_is_alive t \<Longrightarrow> take_damage t dmg nape = (Inr False, t)"
  by (simp_all add: update_def take_damage_def)

lemma dead_stays_dead_op:
  "\<not> ta_is_alive t \<Longrightarrow> \<not> restores op \<Longrightarrow> \<not> ta_is_alive (apply_op t op)"
  by (cases op)
    (simp_all add: dead_calls_return detect_player_alive pursue_target_alive
      perform_attack_alive perform_grab_alive try_attack_or_grab_alive die_result)

lemma dead_stays_dead_ops:
  "\<not> ta_is_alive t \<Longrightarrow> list_all (\<lambda>op. \<not> restores op) ops \<Longrightarrow> \<not> ta_is_alive (run_ops t ops)"
  unfolding run_ops_def
  by (induction ops arbitrary: t) (simp_all add: dead_stays_dead_op)

lemma trigger_damage_response_health:
  "ta_health (snd (trigger_damage_response t)) = ta_health t"
  by (simp add: trigger_damage_response_def Let_def change_state_def)

lemma trigger_damage_response_no_error:
  "bp_retreat_threshold (ta_behavior t) \<le> 0 \<or> ta_max_health t \<noteq> 0 \<Longrightarrow>
   fst (trigger_damage_response t) = None"
  by (auto simp: trigger_damage_response_def Let_def)

lemma take_damage_fatal:
  assumes "ta_is_alive t" and "ta_health t - body_damage t dmg \<le> 0"
    and "bp_retreat_threshold (ta_behavior t) \<le> 0 \<or> ta_max_health t \<noteq> 0"
  shows "fst (take_damage t dmg False) = Inr True \<and>
         ta_current_state (snd (take_damage t dmg False)) = DYING \<and>
         \<not> ta_is_alive (snd (take_damage t dmg False)) \<and>
         ta_health (snd (take_damage t dmg False)) = 0"
proof -
  let ?t1 = "t\<lparr>ta_health := ta_health t - body_damage t dmg\<rparr>"
  obtain e t2 where r: "trigger_damage_response ?t1 = (e, t2)"
    by (cases "trigger_damage_response ?t1")
  have "e = None"
    using trigger_damage_response_no_error [of ?t1] assms(3) r by simp
  moreover have "ta_health t2 \<le> 0"
    using trigger_damage_response_health [of ?t1] assms(2) r by simp
  ultimately show ?thesis
    using assms(1) r by (simp add: take_damage_def body_damage_def Let_def die_result)
qed

text \<open>
  C2 (amended). Once \<^verbatim>\<open>is_alive\<close> is false, no sequence of the gameplay operations
  (update, detection, pursuit, attack, grab, damage, death, the position and callback
  setters) makes it true again; only \<^verbatim>\<open>reset\<close> and \<^verbatim>\<open>set_state\<close> restore an instance.
  For a living titan whose maximal health is not zero or whose behaviour has no retreat
  threshold, a hit off the nape that brings the health to zero (or below) returns true
  and leaves the titan in the state Dying, not alive, with health 0, and no later
  gameplay operation, \<^verbatim>\<open>take_damage\<close> included, revives it.
\<close>

theorem dead_titan_stays_dead:
  "(\<not> ta_is_alive t \<and> list_all (\<lambda>op. \<not> restores op) ops \<longrightarrow>
      \<not> ta_is_alive (run_ops t ops)) \<and>
   (ta_is_alive t \<and> ta_health t - body_damage t dmg \<le> 0 \<and>
    (bp_retreat_threshold (ta_behavior t) \<le> 0 \<or> ta_max_health t \<noteq> 0) \<longrightarrow>
      fst (take_damage t dmg False) = Inr True \<and>
      ta_current_state (snd (take_damage t dmg False)) = DYING \<and>
      \<not> ta_is_alive (snd (take_damage t dmg False)) \<and>
      ta_health (snd (take_damage t dmg False)) = 0 \<and>
      (list_all (\<lambda>op. \<not> restores op) ops \<longrightarrow>
         \<not> ta_is_alive (run_ops (snd (take_damage t dmg False)) ops)))"
  using take_damage_fatal [of t dmg] dead_stays_dead_ops [of t ops]
    dead_stays_dead_ops [of "snd (take_damage t dmg False)" ops]
  by blast

lemma cautious_titan_killed:
  "take_damage cautious_titan 100 False =
     (Inr True,
      cautious_titan\<lparr>ta_health := 0, ta_is_alive := False, ta_current_state := DYING,
                      ta_previous_state := STUNNED, ta_response_timer := 1,
                      ta_stun_timer := 1\<rparr>)"
  by (simp add: take_damage_def trigger_damage_response_def cautious_titan_def new_titan_def
      default_titan_data_def cautious_behavior_def change_state_def die_def Let_def)

theorem dead_titan_stays_dead_witness:
  "ta_is_alive cautious_titan \<and>
   ta_health cautious_titan - body_damage cautious_titan 100 = 0 \<and>
   fst (take_damage cautious_titan 100 False) = Inr True \<and>
   ta_current_state (snd (take_damage cautious_titan 100 False)) = DYING \<and>
   \<not> ta_is_alive (snd (take_damage cautious_titan 100 False)) \<and>
   \<not> ta_is_alive
       (run_ops (snd (take_damage cautious_titan 100 False))
          [OpTakeDamage 50 False, OpUpdate 1 (Some (Vec3 0 0 1)) no_draws,
           OpTakeDamage 1 True, OpDetectPlayer (Some (Vec3 0 0 1)), OpPerformAttack])"
proof -
  have a: "ta_is_alive cautious_titan"
    by (simp add: cautious_titan_def new_titan_def)
  have h: "ta_health cautious_titan - body_damage cautious_titan 100 = 0"
    by (simp add: cautious_titan_def new_titan_def body_damage_def default_titan_data_def)
  have m: "ta_max_health cautious_titan \<noteq> 0"
    by (simp add: cautious_titan_def new_titan_def default_titan_data_def)
  show ?thesis
    using dead_titan_stays_dead
      [of cautious_titan
        "[OpTakeDamage 50 False, OpUpdate 1 (Some (Vec3 0 0 1)) no_draws,
          OpTakeDamage 1 True, OpDetectPlayer (Some (Vec3 0 0 1)), OpPerformAttack]" 100]
      a h m
    by simp
qed

lemma zero_max_health_titan_raises:
  "ta_is_alive zero_max_health_titan \<and>
   ta_health zero_max_health_titan - body_damage zero_max_health_titan 50 = 0 \<and>
   take_damage zero_max_health_titan 50 False =
     (Inl ZeroDivisionError, zero_max_health_titan\<lparr>ta_health := 0, ta_response_timer := 1\<rparr>)"
  by (simp add: zero_max_health_titan_def TitanAI_set_state_def or_default_def
      TitanState_of_def new_titan_def default_titan_data_def cautious_behavior_def
      body_damage_def take_damage_def trigger_damage_response_def Let_def)

text \<open>
  C2 as stated fails twice. A titan killed by a hit off the nape is alive again after
  \<^verbatim>\<open>reset()\<close>, and after \<^verbatim>\<open>set_state\<close> with a dictionary that has no \<^verbatim>\<open>is_alive\<close> key.
  And for a titan whose maximal health is 0 and whose behaviour has a retreat threshold,
  the hit that brings the health to exactly 0 raises \<^verbatim>\<open>ZeroDivisionError\<close> in the
  damage response, before the death check: the titan stays alive.
\<close>

theorem revived_by_reset_counterexample:
  "\<not> ta_is_alive (snd (take_damage cautious_titan 100 False)) \<and>
   ta_is_alive (run_ops (snd (take_damage cautious_titan 100 False)) [OpReset]) \<and>
   ta_is_alive
     (run_ops (snd (take_damage cautious_titan 100 False))
        [OpSetState \<lparr>sv_position = None, sv_health = None, sv_is_alive = None,
                     sv_current_state = None\<rparr>]) \<and>
   ta_is_alive zero_max_health_titan \<and>
   ta_health zero_max_health_titan - body_damage zero_max_health_titan 50 = 0 \<and>
   fst (take_damage zero_max_health_titan 50 False) = Inl ZeroDivisionError \<and>
   ta_is_alive (snd (take_damage zero_max_health_titan 50 False))"
  using zero_max_health_titan_raises
  by (simp add: cautious_titan_killed run_ops_def TitanAI_reset_def TitanAI_set_state_def
      or_default_def TitanState_of_def)

section \<open>Properties of TitanAI: the stun\<close>




















end
